theory Spec2Isabelle
  imports Complex_Main
begin

section \<open>Data model\<close>

text \<open>
  JavaScript numbers are modelled as mathematical reals (frame counters and virtual
  hours, which the code only ever increments or floors, as \<open>nat\<close> and \<open>int\<close>).
  Object references are modelled by value: a record that holds a reference in the
  source holds the referenced record here, and a method returns the updated record.
  Every \<open>Math.random()\<close> call of the source is a parameter of the modelled function,
  a real in the interval from 0 (included) to 1 (excluded).
\<close>

subsection \<open>Avatar handle (the part of a GVRM object the core reads and writes)\<close>

record gvrm =
  isReady :: bool
  isLoading :: bool
  posX :: real
  posY :: real
  posZ :: real
  rot0Y :: real
  yaw :: real

subsection \<open>Walker (src/app5/main.js, class \<open>Walker\<close>)\<close>

datatype animation = Idle | Walking | Special

text \<open>
  The fields the constructor sets, and \<open>inInteraction\<close>, which \<open>Interaction\<close> assigns
  on the object. \<open>walkingAction\<close> and \<open>idleAction\<close> say whether the action object
  is there (not \<open>null\<close>); \<open>currentSpecialAnimation\<close> is the index of the clip in
  \<open>specialAnimations\<close>.
\<close>

record walker =
  gvrm :: "gvrm option"
  speed :: real
  isWalking :: bool
  currentAnimation :: animation
  walkingAction :: bool
  idleAction :: bool
  walkTimer :: nat
  walkDuration :: real
  stopDuration :: real
  shouldWalk :: bool
  boundary :: real
  targetX :: real
  targetZ :: real
  targetRotation :: real
  currentRotation :: real
  arrivalThreshold :: real
  justChangedTarget :: bool
  animationsLoaded :: bool
  currentSpecialAnimation :: "nat option"
  isPlayingSpecial :: bool
  inInteraction :: bool

text \<open>The random draws one \<open>update()\<close> call may consume, in the order of the code.\<close>

record draws =
  d_duration :: real
  d_targetX :: real
  d_targetZ :: real
  d_special :: real
  d_boundaryX :: real
  d_boundaryZ :: real

definition setNewTarget :: "real \<Rightarrow> real \<Rightarrow> walker \<Rightarrow> walker" where
  "setNewTarget r1 r2 w =
     (let maxRange = boundary w * (85 / 100)
      in w\<lparr>targetX := (r1 - 1 / 2) * 2 * maxRange, targetZ := (r2 - 1 / 2) * 2 * maxRange\<rparr>)"

definition Walker_new ::
  "gvrm option \<Rightarrow> real \<Rightarrow> real \<Rightarrow> real \<Rightarrow> real \<Rightarrow> real \<Rightarrow> real \<Rightarrow> walker" where
  "Walker_new g rWalk rStop rShould rX rZ rRot =
     (setNewTarget rX rZ
        \<lparr>gvrm = g, speed = 3 / 100, isWalking = False, currentAnimation = Idle,
         walkingAction = False, idleAction = False, walkTimer = 0,
         walkDuration = 120 + rWalk * 180, stopDuration = 60 + rStop * 120,
         shouldWalk = (rShould > 1 / 2), boundary = 45 / 4,
         targetX = 0, targetZ = 0, targetRotation = 0, currentRotation = 0,
         arrivalThreshold = 15 / 100, justChangedTarget = False,
         animationsLoaded = False, currentSpecialAnimation = None,
         isPlayingSpecial = False, inInteraction = False\<rparr>)
     \<lparr>targetRotation := 0, currentRotation := (rRot - 1 / 2) * pi * 2\<rparr>"

text \<open>\<open>initAnimations()\<close> when both clips have loaded.\<close>

definition initAnimations :: "walker \<Rightarrow> walker" where
  "initAnimations w =
     (case gvrm w of
        None \<Rightarrow> w
      | Some g \<Rightarrow>
          if \<not> isReady g then w
          else w\<lparr>walkingAction := True, idleAction := True, currentAnimation := Idle,
                 animationsLoaded := True\<rparr>)"

text \<open>
  \<open>switchToWalking()\<close> has no \<open>await\<close>: it runs to its end inside the caller's frame.
\<close>

definition switchToWalking :: "walker \<Rightarrow> walker" where
  "switchToWalking w =
     (if \<not> walkingAction w \<or> \<not> idleAction w then w
      else if currentAnimation w = Walking then w
      else w\<lparr>currentAnimation := Walking, isWalking := True\<rparr>)"

text \<open>
  \<open>switchToIdle()\<close> as far as it runs inside the caller's frame: on the path that
  reloads the clips after a special animation it stops at the first \<open>await\<close> with
  the walker unchanged.
\<close>

definition switchToIdle :: "walker \<Rightarrow> walker" where
  "switchToIdle w =
     (if \<not> idleAction w then w
      else if currentAnimation w = Idle then w
      else if isPlayingSpecial w then w
      else if \<not> walkingAction w then w
      else w\<lparr>currentAnimation := Idle, isWalking := False, isPlayingSpecial := False,
             currentSpecialAnimation := None\<rparr>)"

text \<open>
  The two \<open>while\<close> loops that bring an angle into the range from \<open>-\<pi>\<close> to \<open>\<pi>\<close>:
  \<^verbatim>\<open>while (a > Math.PI) a -= Math.PI * 2; while (a < -Math.PI) a += Math.PI * 2;\<close>
\<close>

function subLoop :: "real \<Rightarrow> real" where
  "subLoop a = (if a > pi then subLoop (a - pi * 2) else a)"
  by pat_completeness auto
termination
proof (relation "measure (\<lambda>a. nat \<lceil>(a + pi) / (2 * pi)\<rceil>)")
  show "wf (measure (\<lambda>a. nat \<lceil>(a + pi) / (2 * pi)\<rceil>))" by simp
next
  fix a :: real
  assume a: "pi < a"
  have e: "(a - pi * 2 + pi) / (2 * pi) = (a + pi) / (2 * pi) - 1"
    using pi_gt_zero by (simp add: field_simps)
  have "1 < (a + pi) / (2 * pi)" using a pi_gt_zero by (simp add: field_simps)
  then have k: "1 < \<lceil>(a + pi) / (2 * pi)\<rceil>" by linarith
  have c: "\<lceil>(a - pi * 2 + pi) / (2 * pi)\<rceil> = \<lceil>(a + pi) / (2 * pi)\<rceil> - 1"
    by (simp only: e ceiling_diff_one)
  have "nat \<lceil>(a - pi * 2 + pi) / (2 * pi)\<rceil> < nat \<lceil>(a + pi) / (2 * pi)\<rceil>"
    using k c by linarith
  then show "(a - pi * 2, a) \<in> measure (\<lambda>a. nat \<lceil>(a + pi) / (2 * pi)\<rceil>)"
    by (simp only: in_measure)
qed

function addLoop :: "real \<Rightarrow> real" where
  "addLoop a = (if a < - pi then addLoop (a + pi * 2) else a)"
  by pat_completeness auto
termination
proof (relation "measure (\<lambda>a. nat \<lceil>(pi - a) / (2 * pi)\<rceil>)")
  show "wf (measure (\<lambda>a. nat \<lceil>(pi - a) / (2 * pi)\<rceil>))" by simp
next
  fix a :: real
  assume a: "a < - pi"
  have e: "(pi - (a + pi * 2)) / (2 * pi) = (pi - a) / (2 * pi) - 1"
    using pi_gt_zero by (simp add: field_simps)
  have "1 < (pi - a) / (2 * pi)" using a pi_gt_zero by (simp add: field_simps)
  then have k: "1 < \<lceil>(pi - a) / (2 * pi)\<rceil>" by linarith
  have c: "\<lceil>(pi - (a + pi * 2)) / (2 * pi)\<rceil> = \<lceil>(pi - a) / (2 * pi)\<rceil> - 1"
    by (simp only: e ceiling_diff_one)
  have "nat \<lceil>(pi - (a + pi * 2)) / (2 * pi)\<rceil> < nat \<lceil>(pi - a) / (2 * pi)\<rceil>"
    using k c by linarith
  then show "(a + pi * 2, a) \<in> measure (\<lambda>a. nat \<lceil>(pi - a) / (2 * pi)\<rceil>)"
    by (simp only: in_measure)
qed

definition normalizeAngle :: "real \<Rightarrow> real" where
  "normalizeAngle a = addLoop (subLoop a)"

text \<open>\<open>Math.atan2(y, x)\<close> on finite arguments.\<close>

definition atan2 :: "real \<Rightarrow> real \<Rightarrow> real" where
  "atan2 y x =
     (if x > 0 then arctan (y / x)
      else if x < 0 \<and> y \<ge> 0 then arctan (y / x) + pi
      else if x < 0 then arctan (y / x) - pi
      else if y > 0 then pi / 2
      else if y < 0 then - (pi / 2)
      else 0)"

text \<open>The walk/stop toggle at the head of \<open>update()\<close>.\<close>

definition toggleWalk :: "real \<Rightarrow> walker \<Rightarrow> walker" where
  "toggleWalk r w0 =
     (let w = w0\<lparr>walkTimer := walkTimer w0 + 1\<rparr>
      in if shouldWalk w then
           (if real (walkTimer w) \<ge> walkDuration w
            then switchToIdle (w\<lparr>shouldWalk := False, walkTimer := 0, stopDuration := 60 + r * 120\<rparr>)
            else w)
         else
           (if real (walkTimer w) \<ge> stopDuration w
            then switchToWalking (w\<lparr>shouldWalk := True, walkTimer := 0, walkDuration := 120 + r * 180\<rparr>)
            else w))"

text \<open>
  Heading and arrival. \<open>playRandomSpecialAnimation()\<close>, called here with probability
  0.33, changes no field of the walker before its first \<open>await\<close>; what it does when
  the clip has loaded is \<open>specialStarted\<close> below.
\<close>

definition navigate :: "gvrm \<Rightarrow> draws \<Rightarrow> walker \<Rightarrow> walker" where
  "navigate g d w =
     (if shouldWalk w then
        (let dx = targetX w - posX g;
             dz = targetZ w - posZ g;
             distanceToTarget = sqrt (dx * dx + dz * dz);
             w1 = w\<lparr>targetRotation := atan2 dx dz - rot0Y g\<rparr>
         in if distanceToTarget < arrivalThreshold w1
            then setNewTarget (d_targetX d) (d_targetZ d) w1
            else w1)
      else w)"

definition requestsSpecial :: "gvrm \<Rightarrow> draws \<Rightarrow> walker \<Rightarrow> bool" where
  "requestsSpecial g d w =
     (shouldWalk w \<and>
      sqrt ((targetX w - posX g) * (targetX w - posX g) + (targetZ w - posZ g) * (targetZ w - posZ g))
        < arrivalThreshold w \<and>
      d_special d < 33 / 100)"

definition specialStarted :: "nat \<Rightarrow> walker \<Rightarrow> walker" where
  "specialStarted k w =
     w\<lparr>currentAnimation := Special, isWalking := False, isPlayingSpecial := True,
       currentSpecialAnimation := Some k, shouldWalk := False, walkTimer := 0\<rparr>"

definition clamp :: "real \<Rightarrow> real \<Rightarrow> real \<Rightarrow> real" where
  "clamp lo hi v = max lo (min hi v)"

text \<open>
  Rotation and forward movement, in the parts of the code: the normalised angle
  difference \<open>rotDiff\<close>; the rotation after the 10% step, normalised again; the test
  that lets the walker step forward; the proposed position; the boundary check. The
  forward vector is \<open>(0, 0, 1)\<close> turned about the vertical axis by
  \<open>currentRotation - rot0.y\<close> (the product of the two quaternions about that axis),
  that is \<open>(sin \<theta>, 0, cos \<theta>)\<close>.
\<close>

definition rotDiffOf :: "walker \<Rightarrow> real" where
  "rotDiffOf w = normalizeAngle (targetRotation w - currentRotation w)"

definition turnedRotation :: "walker \<Rightarrow> real" where
  "turnedRotation w = normalizeAngle (currentRotation w + rotDiffOf w * (1 / 10))"

definition movesForward :: "walker \<Rightarrow> bool" where
  "movesForward w = (shouldWalk w \<and> isWalking w \<and> \<bar>rotDiffOf w\<bar> < 1 / 10)"

definition forwardPosition :: "gvrm \<Rightarrow> walker \<Rightarrow> real \<times> real" where
  "forwardPosition g w =
     (let theta = turnedRotation w - rot0Y g
      in (posX g + speed w * sin theta, posZ g + speed w * cos theta))"

definition insideMargin :: "walker \<Rightarrow> real \<times> real \<Rightarrow> bool" where
  "insideMargin w p = (\<bar>fst p\<bar> < boundary w - 1 / 2 \<and> \<bar>snd p\<bar> < boundary w - 1 / 2)"

definition clampToMargin :: "walker \<Rightarrow> real \<times> real \<Rightarrow> real \<times> real" where
  "clampToMargin w p =
     (clamp (- boundary w + 1 / 2) (boundary w - 1 / 2) (fst p),
      clamp (- boundary w + 1 / 2) (boundary w - 1 / 2) (snd p))"

definition turnAndWalk :: "gvrm \<Rightarrow> draws \<Rightarrow> walker \<Rightarrow> walker" where
  "turnAndWalk g d w =
     (let w1 = w\<lparr>currentRotation := turnedRotation w\<rparr>;
          g1 = g\<lparr>yaw := turnedRotation w\<rparr>
      in if movesForward w then
           (let new = forwardPosition g w
            in if insideMargin w new
               then w1\<lparr>gvrm := Some (g1\<lparr>posX := fst new, posZ := snd new\<rparr>)\<rparr>
               else
                 (let w2 = w1\<lparr>gvrm := Some (g1\<lparr>posX := fst (clampToMargin w new),
                                                 posZ := snd (clampToMargin w new)\<rparr>)\<rparr>
                  in if \<not> justChangedTarget w2
                     then (setNewTarget (d_boundaryX d) (d_boundaryZ d) w2)\<lparr>justChangedTarget := True\<rparr>
                     else w2))
         else w1\<lparr>gvrm := Some g1\<rparr>)"

text \<open>\<open>Walker.update()\<close>.\<close>

definition Walker_update :: "draws \<Rightarrow> walker \<Rightarrow> walker" where
  "Walker_update d w =
     (case gvrm w of
        None \<Rightarrow> w
      | Some g \<Rightarrow>
          if \<not> isReady g \<or> \<not> animationsLoaded w then w
          else if isPlayingSpecial w then w
          else turnAndWalk g d (navigate g d (toggleWalk (d_duration d) w)))"

text \<open>The timer set at a boundary hit, when it fires one second later.\<close>

definition debounceExpired :: "walker \<Rightarrow> walker" where
  "debounceExpired w = w\<lparr>justChangedTarget := False\<rparr>"

fun Walker_updates :: "draws list \<Rightarrow> walker \<Rightarrow> walker" where
  "Walker_updates [] w = w"
| "Walker_updates (d # ds) w = Walker_updates ds (Walker_update d w)"

subsection \<open>Interaction (src/app2/interaction.js, class \<open>Interaction\<close>)\<close>

datatype variant =
    GreetingInteraction | DancePartyInteraction | ChickenDanceInteraction
  | ListeningInteraction | PointingInteraction | WarriorPoseInteraction
  | DizzySpinInteraction | FlyingDreamInteraction | ShrugInteraction
  | CombatTrainingInteraction | HappyMeetingInteraction | BreathingExerciseInteraction
  | WalkTogetherInteraction | MorningGreetingInteraction | EveningGoodbyeInteraction
  | NearHouseMeetingInteraction | FarDistanceWaveInteraction | CircleDanceInteraction
  | MutualPointingInteraction | NightSkyGazingInteraction | FlyingShowInteraction
  | ListeningCircleInteraction | WarriorCombatInteraction | RelaxBreakInteraction
  | MixedDancePartyInteraction

record interaction =
  kind :: variant
  index1 :: nat
  index2 :: nat
  gvrm1 :: gvrm
  gvrm2 :: gvrm
  walker1 :: walker
  walker2 :: walker
  isActive :: bool
  duration :: nat
  frameCount :: nat
  interactionDistance :: real
  original1 :: bool
  original2 :: bool

text \<open>The constructor: \<open>duration = 7.5 * 60\<close>, that is 450 frames.\<close>

definition Interaction_new ::
  "variant \<Rightarrow> nat \<Rightarrow> nat \<Rightarrow> gvrm \<Rightarrow> gvrm \<Rightarrow> walker \<Rightarrow> walker \<Rightarrow> interaction" where
  "Interaction_new k i1 i2 g1 g2 w1 w2 =
     \<lparr>kind = k, index1 = i1, index2 = i2, gvrm1 = g1, gvrm2 = g2, walker1 = w1, walker2 = w2,
      isActive = False, duration = 450, frameCount = 0,
      interactionDistance = 8 / 10, original1 = False, original2 = False\<rparr>"

text \<open>
  \<open>start()\<close> up to its first \<open>await\<close>: the interaction becomes active, the frame
  counter is reset and the walking flags are saved.
\<close>

definition Interaction_start :: "interaction \<Rightarrow> interaction" where
  "Interaction_start i =
     i\<lparr>isActive := True, frameCount := 0,
       original1 := isWalking (walker1 i), original2 := isWalking (walker2 i)\<rparr>"

text \<open>
  What \<open>start()\<close> does to a walker once \<open>moveAvatarsTogether()\<close> has resolved:
  it is paused and marked as being in an interaction.
\<close>

definition pauseWalker :: "walker \<Rightarrow> walker" where
  "pauseWalker w = w\<lparr>isWalking := False, shouldWalk := False, inInteraction := True\<rparr>"

definition Interaction_start_resume :: "interaction \<Rightarrow> interaction" where
  "Interaction_start_resume i =
     i\<lparr>walker1 := pauseWalker (walker1 i), walker2 := pauseWalker (walker2 i)\<rparr>"

text \<open>\<open>end()\<close>: deactivates the interaction and restores the walkers.\<close>

definition Interaction_end :: "interaction \<Rightarrow> interaction" where
  "Interaction_end i =
     i\<lparr>isActive := False,
       walker1 := (walker1 i)\<lparr>isWalking := original1 i, inInteraction := False\<rparr>,
       walker2 := (walker2 i)\<lparr>isWalking := original2 i, inInteraction := False\<rparr>\<rparr>"

text \<open>
  \<open>update()\<close>, returning with the new state the calls it made: \<open>EndCalled\<close> for
  \<open>this.end()\<close> and \<open>OnUpdateCalled\<close> for the variant's per-frame hook.
\<close>

datatype call = EndCalled | OnUpdateCalled

definition Interaction_update :: "interaction \<Rightarrow> interaction \<times> call list" where
  "Interaction_update i =
     (if \<not> isActive i then (i, [])
      else let i1 = i\<lparr>frameCount := frameCount i + 1\<rparr>
           in if frameCount i1 \<ge> duration i1 then (Interaction_end i1, [EndCalled])
              else (i1, [OnUpdateCalled]))"

text \<open>\<open>update()\<close> called frame after frame: the state and the calls of each frame.\<close>

fun Interaction_updates :: "nat \<Rightarrow> interaction \<Rightarrow> interaction \<times> call list list" where
  "Interaction_updates 0 i = (i, [])"
| "Interaction_updates (Suc n) i =
     (case Interaction_update i of
        (i1, cs) \<Rightarrow> (case Interaction_updates n i1 of (i2, css) \<Rightarrow> (i2, cs # css)))"

subsection \<open>Meeting targets (\<open>Interaction.moveAvatarsTogether\<close>)\<close>

text \<open>
  The operations of \<open>THREE.Vector3\<close> that the method uses; \<open>normalize\<close> divides by
  the length, or by 1 when the length is 0.
\<close>

datatype vec3 = Vec3 (vx: real) (vy: real) (vz: real)

definition subVectors :: "vec3 \<Rightarrow> vec3 \<Rightarrow> vec3" where
  "subVectors a b = Vec3 (vx a - vx b) (vy a - vy b) (vz a - vz b)"

definition addVectors :: "vec3 \<Rightarrow> vec3 \<Rightarrow> vec3" where
  "addVectors a b = Vec3 (vx a + vx b) (vy a + vy b) (vz a + vz b)"

definition multiplyScalar :: "vec3 \<Rightarrow> real \<Rightarrow> vec3" where
  "multiplyScalar a s = Vec3 (vx a * s) (vy a * s) (vz a * s)"

definition vlength :: "vec3 \<Rightarrow> real" where
  "vlength a = sqrt (vx a * vx a + vy a * vy a + vz a * vz a)"

definition normalize :: "vec3 \<Rightarrow> vec3" where
  "normalize a = multiplyScalar a (1 / (if vlength a = 0 then 1 else vlength a))"

definition distanceTo :: "vec3 \<Rightarrow> vec3 \<Rightarrow> real" where
  "distanceTo a b = vlength (subVectors a b)"

definition position :: "gvrm \<Rightarrow> vec3" where
  "position g = Vec3 (posX g) (posY g) (posZ g)"

definition Interaction_getDistance :: "interaction \<Rightarrow> real" where
  "Interaction_getDistance i = distanceTo (position (gvrm1 i)) (position (gvrm2 i))"

text \<open>
  The two targets handed to \<open>setTemporaryTarget\<close>, as \<open>(x, z)\<close> pairs. Both branches
  are kept as the source has them; \<open>walkDistance\<close> of the first is declared and never
  used.
\<close>

definition moveAvatarsTogether_targets :: "interaction \<Rightarrow> (real \<times> real) \<times> (real \<times> real)" where
  "moveAvatarsTogether_targets i =
     (let pos1 = position (gvrm1 i);
          pos2 = position (gvrm2 i);
          currentDistance = Interaction_getDistance i
      in if currentDistance < interactionDistance i * 2 then
           (let direction = normalize (subVectors pos2 pos1);
                walkDistance = (3 :: real);
                midpoint = Vec3 ((vx pos1 + vx pos2) / 2) 0 ((vz pos1 + vz pos2) / 2);
                target1 = subVectors midpoint (multiplyScalar direction (interactionDistance i / 2));
                target2 = addVectors midpoint (multiplyScalar direction (interactionDistance i / 2))
            in ((vx target1, vz target1), (vx target2, vz target2)))
         else
           (let midpoint = Vec3 ((vx pos1 + vx pos2) / 2) 0 ((vz pos1 + vz pos2) / 2);
                direction = normalize (subVectors pos2 pos1);
                halfDistance = interactionDistance i / 2;
                target1 = subVectors midpoint (multiplyScalar direction halfDistance);
                target2 = addVectors midpoint (multiplyScalar direction halfDistance)
            in ((vx target1, vz target1), (vx target2, vz target2))))"

subsection \<open>Interaction manager (src/app4/main.js, class \<open>InteractionManager\<close>)\<close>

record manager =
  gvrms :: "gvrm list"
  walkers :: "walker list"
  activeInteraction :: "interaction option"
  lastInteractionHour :: int
  timeOfDay :: real

definition Manager_new :: "gvrm list \<Rightarrow> walker list \<Rightarrow> real \<Rightarrow> manager" where
  "Manager_new gs ws t =
     \<lparr>gvrms = gs, walkers = ws, activeInteraction = None, lastInteractionHour = - 1, timeOfDay = t\<rparr>"

definition interactionTypes :: "variant list" where
  "interactionTypes =
     [GreetingInteraction, DancePartyInteraction, ChickenDanceInteraction,
      ListeningInteraction, PointingInteraction, WarriorPoseInteraction,
      DizzySpinInteraction, FlyingDreamInteraction, ShrugInteraction,
      CombatTrainingInteraction, HappyMeetingInteraction, BreathingExerciseInteraction,
      WalkTogetherInteraction, MorningGreetingInteraction, EveningGoodbyeInteraction,
      NearHouseMeetingInteraction, FarDistanceWaveInteraction, CircleDanceInteraction,
      MutualPointingInteraction, NightSkyGazingInteraction, FlyingShowInteraction,
      ListeningCircleInteraction, WarriorCombatInteraction, RelaxBreakInteraction,
      MixedDancePartyInteraction]"

text \<open>
  The redraw loop of \<open>selectTwoRandomAvatars\<close>: the second index is drawn again while
  it equals the first. The draws are a list; \<open>None\<close> says that the loop has not ended
  when the list is used up.
\<close>

fun drawSecond :: "nat \<Rightarrow> nat \<Rightarrow> real list \<Rightarrow> nat option" where
  "drawSecond n i1 [] = None"
| "drawSecond n i1 (r # rs) =
     (let i2 = nat \<lfloor>r * real n\<rfloor> in if i2 = i1 then drawSecond n i1 rs else Some i2)"

datatype 'a selection = Null | Unfinished | Selected 'a

definition selectTwoRandomAvatars :: "manager \<Rightarrow> real \<Rightarrow> real list \<Rightarrow> (nat \<times> nat) selection" where
  "selectTwoRandomAvatars m r1 rs =
     (if length (gvrms m) < 2 then Null
      else let i1 = nat \<lfloor>r1 * real (length (gvrms m))\<rfloor>
           in case drawSecond (length (gvrms m)) i1 rs of
                None \<Rightarrow> Unfinished
              | Some i2 \<Rightarrow> Selected (i1, i2))"

text \<open>
  \<open>getDistance\<close> and \<open>getDistanceFromHouse\<close> return \<open>Infinity\<close> for an avatar that is
  not ready; \<open>None\<close> stands for it, and the two comparisons the weights make are
  written out for it.
\<close>

definition Manager_getDistance :: "gvrm \<Rightarrow> gvrm \<Rightarrow> real option" where
  "Manager_getDistance g1 g2 =
     (if \<not> isReady g1 \<or> \<not> isReady g2 then None
      else Some (distanceTo (position g1) (position g2)))"

definition getDistanceFromHouse :: "gvrm \<Rightarrow> real option" where
  "getDistanceFromHouse g =
     (if \<not> isReady g then None
      else let dx = posX g - 0; dz = posZ g - (- 10) in Some (sqrt (dx * dx + dz * dz)))"

definition exceeds :: "real option \<Rightarrow> real \<Rightarrow> bool" where
  "exceeds v c = (case v of None \<Rightarrow> True | Some a \<Rightarrow> a > c)"

definition isUnder :: "real option \<Rightarrow> real \<Rightarrow> bool" where
  "isUnder v c = (case v of None \<Rightarrow> False | Some a \<Rightarrow> a < c)"

text \<open>The weight of one interaction class: the body of the \<open>forEach\<close>.\<close>

definition weightOf :: "real \<Rightarrow> real option \<Rightarrow> real option \<Rightarrow> real option \<Rightarrow> variant \<Rightarrow> real" where
  "weightOf t distance distanceFromHouse1 distanceFromHouse2 c =
     (let weight0 = (1 :: real);
          weight1 =
            (if c = MorningGreetingInteraction then (if t \<ge> 6 \<and> t < 12 then 3 else 5 / 10)
             else if c = EveningGoodbyeInteraction then (if t \<ge> 18 \<or> t < 6 then 3 else 5 / 10)
             else if c = NightSkyGazingInteraction
               then (if (t \<ge> 18 \<and> t \<le> 24) \<or> (t \<ge> 0 \<and> t < 6) then 3 else 3 / 10)
             else weight0);
          weight2 =
            (if c = FarDistanceWaveInteraction then (if exceeds distance 7 then 3 else 3 / 10)
             else if c = WalkTogetherInteraction then (if isUnder distance 3 then 2 else 5 / 10)
             else weight1);
          weight3 =
            (if c = NearHouseMeetingInteraction
             then (if isUnder distanceFromHouse1 5 \<or> isUnder distanceFromHouse2 5
                   then 3 else 3 / 10)
             else weight2)
      in if c = GreetingInteraction \<or> c = HappyMeetingInteraction then weight3 * (15 / 10)
         else if c = DancePartyInteraction \<or> c = ChickenDanceInteraction then weight3 * (8 / 10)
         else weight3)"

definition weightsOf :: "manager \<Rightarrow> gvrm \<Rightarrow> gvrm \<Rightarrow> (variant \<times> real) list" where
  "weightsOf m g1 g2 =
     map (\<lambda>c. (c, weightOf (timeOfDay m) (Manager_getDistance g1 g2)
                     (getDistanceFromHouse g1) (getDistanceFromHouse g2) c))
         interactionTypes"

definition totalWeight :: "(variant \<times> real) list \<Rightarrow> real" where
  "totalWeight ws = foldl (\<lambda>sum item. sum + snd item) 0 ws"

text \<open>
  The \<open>for\<close> loop of the weighted selection: subtract the weight, return the class when
  the remainder is not positive; \<open>None\<close> when the list ends without a pick.
\<close>

fun walkWeights :: "(variant \<times> real) list \<Rightarrow> real \<Rightarrow> variant option" where
  "walkWeights [] random = None"
| "walkWeights (item # rest) random =
     (if random - snd item \<le> 0 then Some (fst item) else walkWeights rest (random - snd item))"

definition pickVariant :: "(variant \<times> real) list \<Rightarrow> real \<Rightarrow> variant" where
  "pickVariant ws u =
     (case walkWeights ws (u * totalWeight ws) of
        Some c \<Rightarrow> c
      | None \<Rightarrow> GreetingInteraction)"

definition selectInteraction ::
  "manager \<Rightarrow> nat \<Rightarrow> nat \<Rightarrow> gvrm \<Rightarrow> gvrm \<Rightarrow> walker \<Rightarrow> walker \<Rightarrow> real \<Rightarrow> interaction" where
  "selectInteraction m i1 i2 g1 g2 w1 w2 u =
     Interaction_new (pickVariant (weightsOf m g1 g2) u) i1 i2 g1 g2 w1 w2"

definition hasActive :: "manager \<Rightarrow> bool" where
  "hasActive m = (case activeInteraction m of None \<Rightarrow> False | Some i \<Rightarrow> isActive i)"

definition shouldStartInteraction :: "manager \<Rightarrow> int \<Rightarrow> bool" where
  "shouldStartInteraction m currentHour =
     (if hasActive m then False
      else if lastInteractionHour m \<noteq> - 1 \<and>
              currentHour - lastInteractionHour m < 4 \<and> currentHour - lastInteractionHour m \<ge> 0
           then False
      else if lastInteractionHour m \<noteq> - 1 \<and>
              currentHour < lastInteractionHour m \<and> 24 - lastInteractionHour m + currentHour < 4
           then False
      else if length (gvrms m) < 2 then False
      else True)"

text \<open>The random draws of one start attempt.\<close>

record startDraws =
  s_index1 :: real
  s_index2 :: "real list"
  s_variant :: real

text \<open>
  \<open>startNewInteraction\<close> up to the \<open>await\<close> inside \<open>interaction.start()\<close>. The result
  is \<open>None\<close> when the redraw loop has not ended with the draws supplied, or when an
  index falls outside \<open>gvrms\<close> (no draw below 1 does that) or outside \<open>walkers\<close>,
  where the source fails on the missing element.
\<close>

definition startNewInteraction :: "manager \<Rightarrow> int \<Rightarrow> startDraws \<Rightarrow> manager option" where
  "startNewInteraction m currentHour s =
     (if \<not> shouldStartInteraction m currentHour then Some m
      else let m1 = m\<lparr>lastInteractionHour := currentHour\<rparr>
           in case selectTwoRandomAvatars m1 (s_index1 s) (s_index2 s) of
                Null \<Rightarrow> Some m1
              | Unfinished \<Rightarrow> None
              | Selected (i1, i2) \<Rightarrow>
                  if i1 < length (gvrms m1) \<and> i2 < length (gvrms m1) then
                    (let g1 = gvrms m1 ! i1; g2 = gvrms m1 ! i2
                     in if \<not> isReady g1 \<or> \<not> isReady g2 then Some m1
                        else if i1 < length (walkers m1) \<and> i2 < length (walkers m1) then
                          Some (m1\<lparr>activeInteraction :=
                                  Some (Interaction_start
                                    (selectInteraction m1 i1 i2 g1 g2 (walkers m1 ! i1) (walkers m1 ! i2)
                                       (s_variant s)))\<rparr>)
                        else None)
                  else None)"

text \<open>\<open>InteractionManager.update(virtualTime)\<close>.\<close>

definition Manager_update :: "manager \<Rightarrow> real \<Rightarrow> startDraws \<Rightarrow> manager option" where
  "Manager_update m virtualTime s =
     (let currentHour = \<lfloor>virtualTime\<rfloor>;
          m0 = m\<lparr>timeOfDay := virtualTime\<rparr>
      in case startNewInteraction m0 currentHour s of
           None \<Rightarrow> None
         | Some m1 \<Rightarrow>
             (case activeInteraction m1 of
                None \<Rightarrow> Some m1
              | Some i \<Rightarrow>
                  if isActive i then
                    (let i1 = fst (Interaction_update i)
                     in if \<not> isActive i1 then Some (m1\<lparr>activeInteraction := None\<rparr>)
                        else Some (m1\<lparr>activeInteraction := Some i1\<rparr>))
                  else Some m1))"

text \<open>
  The cooldown as the specification words it: the hours elapsed since the last start,
  counted around the 24-hour clock.
\<close>

definition elapsedWithWrap :: "int \<Rightarrow> int \<Rightarrow> int" where
  "elapsedWithWrap lastHour currentHour = (currentHour - lastHour) mod 24"

definition readyCount :: "manager \<Rightarrow> nat" where
  "readyCount m = length (filter isReady (gvrms m))"

subsection \<open>Notions the properties are stated with\<close>

text \<open>The region the boundary check keeps the avatar in.\<close>

definition inRegion :: "walker \<Rightarrow> real \<times> real \<Rightarrow> bool" where
  "inRegion w p = (\<bar>fst p\<bar> \<le> boundary w - 1 / 2 \<and> \<bar>snd p\<bar> \<le> boundary w - 1 / 2)"

definition positionXZ :: "walker \<Rightarrow> (real \<times> real) option" where
  "positionXZ w = map_option (\<lambda>g. (posX g, posZ g)) (gvrm w)"

text \<open>Whether \<open>update()\<close> returns at one of its two guards.\<close>

definition skipsUpdate :: "walker \<Rightarrow> bool" where
  "skipsUpdate w =
     (case gvrm w of
        None \<Rightarrow> True
      | Some g \<Rightarrow> (if isReady g then (if animationsLoaded w then isPlayingSpecial w else True) else True))"


subsection \<open>Temporary target of a walker\<close>

text \<open>
  Modelled from the spec: the temporary destination that \<open>Walker.setTemporaryTarget\<close>
  stores. The class \<open>Walker\<close> of src/app5/main.js has no such method and no field for
  it; only the two calls in \<open>Interaction.moveAvatarsTogether\<close> are in the sources. The
  specification (4.1) speaks of a one-off destination with a completion callback and
  a stricter arrival threshold; it gives no value for the threshold, which is a
  field here.
\<close>

record temporaryTarget =
  tt_x :: real
  tt_z :: real
  tt_threshold :: real


text \<open>
  Modelled from the spec: arrival at the temporary destination, missing from the
  sources: in a frame in which \<open>update()\<close> runs, the avatar is nearer to the
  destination than the threshold.
\<close>

definition withinThreshold :: "temporaryTarget \<Rightarrow> walker \<Rightarrow> bool" where
  "withinThreshold t w =
     (case gvrm w of
        None \<Rightarrow> False
      | Some g \<Rightarrow>
          if skipsUpdate w then False
          else sqrt ((tt_x t - posX g) * (tt_x t - posX g) + (tt_z t - posZ g) * (tt_z t - posZ g))
                 < tt_threshold t)"





subsection \<open>Example objects\<close>

definition gvrmAt :: "bool \<Rightarrow> real \<Rightarrow> real \<Rightarrow> gvrm" where
  "gvrmAt ready x z =
     \<lparr>isReady = ready, isLoading = False, posX = x, posY = 0, posZ = z, rot0Y = 0, yaw = 0\<rparr>"

text \<open>A walker built by the constructor whose two clips have loaded.\<close>

definition walkerOf :: "gvrm \<Rightarrow> walker" where
  "walkerOf g = initAnimations (Walker_new (Some g) 0 0 0 (1 / 2) (1 / 2) (1 / 2))"

text \<open>The random draws of a frame, for the examples.\<close>

definition sampleDraws :: draws where
  "sampleDraws = \<lparr>d_duration = 0, d_targetX = 1 / 4, d_targetZ = 1 / 4, d_special = 1 / 2,
               d_boundaryX = 1 / 4, d_boundaryZ = 1 / 4\<rparr>"



text \<open>
  A standing walker whose avatar was placed at \<open>x = 11\<close> (the initial placement of
  src/app5/main.js draws \<open>x\<close> and \<open>z\<close> from the whole boundary, \<open>-11.25\<close> to \<open>11.25\<close>).
\<close>

definition strayWalker :: walker where
  "strayWalker = walkerOf (gvrmAt True 11 0)"

text \<open>
  A walker on the margin \<open>x = 10.75\<close> walking along it, inside the debounce window of
  an earlier boundary hit; \<open>headingWalker\<close> is the same walker after the toggle and
  heading steps of one \<open>update()\<close>.
\<close>

definition wallWalker :: walker where
  "wallWalker = (walkerOf (gvrmAt True (43 / 4) 0))
     \<lparr>shouldWalk := True, isWalking := True, currentAnimation := Walking,
      targetX := 43 / 4, targetZ := 5, justChangedTarget := True\<rparr>"

definition headingWalker :: walker where
  "headingWalker = wallWalker\<lparr>walkTimer := 1, targetRotation := 0\<rparr>"

text \<open>Two avatars 0.8 apart, and an interaction between them.\<close>

definition closePair :: interaction where
  "closePair = Interaction_new GreetingInteraction 0 1 (gvrmAt True 0 0) (gvrmAt True (4 / 5) 0)
                 (walkerOf (gvrmAt True 0 0)) (walkerOf (gvrmAt True (4 / 5) 0))"

section \<open>Interaction manager: when an interaction may start\<close>

lemma elapsedWithWrap_forward:
  "lastHour \<le> currentHour \<Longrightarrow> currentHour < 24 \<Longrightarrow> 0 \<le> lastHour \<Longrightarrow>
     elapsedWithWrap lastHour currentHour = currentHour - lastHour"
  by (simp add: elapsedWithWrap_def)

lemma elapsedWithWrap_wrapped:
  assumes "currentHour < lastHour" "0 \<le> currentHour" "lastHour < 24"
  shows "elapsedWithWrap lastHour currentHour = 24 - lastHour + currentHour"
proof -
  have "(currentHour - lastHour) mod 24 = (currentHour - lastHour + 24) mod 24"
    by simp
  also have "\<dots> = currentHour - lastHour + 24"
    using assms by (intro mod_pos_pos_trivial) linarith+
  finally show ?thesis by (simp add: elapsedWithWrap_def)
qed

text \<open>
  C3, as the code has it. For hours on the 24-hour clock, \<open>shouldStartInteraction\<close>
  returns true exactly when no interaction is active, no interaction has started yet
  (\<open>lastInteractionHour = -1\<close>) or at least 4 hours have elapsed since the last start,
  counted around midnight, and the manager holds at least 2 avatars. Whether the
  avatars are ready is not looked at here.
\<close>

theorem shouldStartInteraction_iff:
  assumes "0 \<le> currentHour" "currentHour < 24"
    and "lastInteractionHour m = - 1 \<or> (0 \<le> lastInteractionHour m \<and> lastInteractionHour m < 24)"
  shows "shouldStartInteraction m currentHour \<longleftrightarrow>
           \<not> hasActive m \<and>
           (lastInteractionHour m = - 1 \<or> elapsedWithWrap (lastInteractionHour m) currentHour \<ge> 4) \<and>
           length (gvrms m) \<ge> 2"
proof (cases "lastInteractionHour m = - 1")
  case True
  then show ?thesis by (auto simp: shouldStartInteraction_def)
next
  case False
  with assms have r: "0 \<le> lastInteractionHour m" "lastInteractionHour m < 24" by auto
  show ?thesis
  proof (cases "lastInteractionHour m \<le> currentHour")
    case True
    then have "elapsedWithWrap (lastInteractionHour m) currentHour = currentHour - lastInteractionHour m"
      using assms(2) r(1) by (rule elapsedWithWrap_forward)
    with True False show ?thesis by (auto simp: shouldStartInteraction_def)
  next
    case c: False
    then have "elapsedWithWrap (lastInteractionHour m) currentHour
                 = 24 - lastInteractionHour m + currentHour"
      using assms(1) r(2) by (intro elapsedWithWrap_wrapped) simp_all
    with c False show ?thesis by (auto simp: shouldStartInteraction_def)
  qed
qed

text \<open>
  The cooldown example: with the last start at hour 22 and two avatars, no start at
  hour 1 (3 hours elapsed) and a start at hour 2 (4 hours elapsed).
\<close>

theorem shouldStartInteraction_iff_witness:
  "\<not> shouldStartInteraction
       (Manager_new [gvrmAt True 0 0, gvrmAt True 5 0] [] 0\<lparr>lastInteractionHour := 22\<rparr>) 1 \<and>
   shouldStartInteraction
       (Manager_new [gvrmAt True 0 0, gvrmAt True 5 0] [] 0\<lparr>lastInteractionHour := 22\<rparr>) 2"
  using
    shouldStartInteraction_iff
      [of 1 "Manager_new [gvrmAt True 0 0, gvrmAt True 5 0] [] 0\<lparr>lastInteractionHour := 22\<rparr>"]
    shouldStartInteraction_iff
      [of 2 "Manager_new [gvrmAt True 0 0, gvrmAt True 5 0] [] 0\<lparr>lastInteractionHour := 22\<rparr>"]
  by (simp add: Manager_new_def hasActive_def elapsedWithWrap_def)

text \<open>
  C3 as it is stated asks for at least 2 ready avatars. With two avatars of which
  none is ready, \<open>shouldStartInteraction\<close> returns true: the equivalence with "at
  least 2 ready avatars" in the place of "at least 2 avatars" fails there.
\<close>

theorem shouldStartInteraction_unready_counterexample:
  "\<not> (shouldStartInteraction (Manager_new [gvrmAt False 0 0, gvrmAt False 5 0] [] 0) 0 \<longleftrightarrow>
        \<not> hasActive (Manager_new [gvrmAt False 0 0, gvrmAt False 5 0] [] 0) \<and>
        (lastInteractionHour (Manager_new [gvrmAt False 0 0, gvrmAt False 5 0] [] 0) = - 1 \<or>
         elapsedWithWrap (lastInteractionHour (Manager_new [gvrmAt False 0 0, gvrmAt False 5 0] [] 0)) 0
           \<ge> 4) \<and>
        readyCount (Manager_new [gvrmAt False 0 0, gvrmAt False 5 0] [] 0) \<ge> 2)"
  by (simp add: shouldStartInteraction_def Manager_new_def hasActive_def readyCount_def gvrmAt_def)

section \<open>Interaction manager: a start attempt with avatars that are not ready\<close>

text \<open>
  C7 at a manager with two avatars, neither ready, at hour 5 with no earlier
  interaction: \<open>startNewInteraction\<close> starts nothing, and it has set
  \<open>lastInteractionHour\<close> to 5, so that \<open>shouldStartInteraction\<close> is false for the
  hours 5 to 8 whatever becomes of the avatars.
\<close>

theorem startNewInteraction_unready:
  "readyCount (Manager_new [gvrmAt False 0 0, gvrmAt False 5 0]
                 [walkerOf (gvrmAt False 0 0), walkerOf (gvrmAt False 5 0)] 5) = 0 \<and>
   startNewInteraction
     (Manager_new [gvrmAt False 0 0, gvrmAt False 5 0]
        [walkerOf (gvrmAt False 0 0), walkerOf (gvrmAt False 5 0)] 5) 5
     \<lparr>s_index1 = 0, s_index2 = [1 / 2], s_variant = 0\<rparr>
   = Some (Manager_new [gvrmAt False 0 0, gvrmAt False 5 0]
             [walkerOf (gvrmAt False 0 0), walkerOf (gvrmAt False 5 0)] 5
           \<lparr>lastInteractionHour := 5\<rparr>) \<and>
   \<not> shouldStartInteraction
       (Manager_new [gvrmAt True 0 0, gvrmAt True 5 0]
          [walkerOf (gvrmAt True 0 0), walkerOf (gvrmAt True 5 0)] 5
        \<lparr>lastInteractionHour := 5\<rparr>) 8"
  by (simp add: startNewInteraction_def shouldStartInteraction_def Manager_new_def hasActive_def
        selectTwoRandomAvatars_def gvrmAt_def readyCount_def Let_def)

text \<open>The hour stamp after that attempt.\<close>

theorem startNewInteraction_unready_witness:
  "map_option lastInteractionHour
     (startNewInteraction
        (Manager_new [gvrmAt False 0 0, gvrmAt False 5 0]
           [walkerOf (gvrmAt False 0 0), walkerOf (gvrmAt False 5 0)] 5) 5
        \<lparr>s_index1 = 0, s_index2 = [1 / 2], s_variant = 0\<rparr>) = Some 5"
  using startNewInteraction_unready by (simp add: Manager_new_def)

section \<open>Interaction manager: the weighted selection\<close>




lemma weightsOf_length: "length (weightsOf m g1 g2) = 25"
  by (simp add: weightsOf_def interactionTypes_def)








section \<open>Interaction: frame counter and end\<close>

lemma updates_inactive:
  "\<not> isActive j \<Longrightarrow> Interaction_updates n j = (j, replicate n [])"
  by (induction n) (simp_all add: Interaction_update_def)

lemma end_inactive: "\<not> isActive (Interaction_end j)"
  by (simp add: Interaction_end_def)

lemma map_upt_shift: "map h [1..<Suc (Suc n)] = h 1 # map (\<lambda>k. h (Suc k)) [1..<Suc n]"
proof -
  have "[1..<Suc (Suc n)] = 1 # map Suc [1..<Suc n]"
    by (simp add: upt_conv_Cons map_Suc_upt del: upt_Suc)
  then show ?thesis by (simp add: comp_def)
qed

text \<open>
  The calls of the \<open>k\<close>-th \<open>update()\<close> after a state that is active with frame
  counter \<open>f\<close>.
\<close>

lemma updates_active:
  fixes j :: interaction
  defines "calls \<equiv> (\<lambda>f dur k.
     if f + k < max (f + 1) dur then [OnUpdateCalled]
     else if f + k = max (f + 1) dur then [EndCalled] else [])"
  assumes act: "isActive j"
  shows "snd (Interaction_updates n j) = map (calls (frameCount j) (duration j)) [1..<Suc n]"
  using act
proof (induction n arbitrary: j)
  case 0
  then show ?case by simp
next
  case (Suc n)
  show ?case
  proof (cases "frameCount j + 1 \<ge> duration j")
    case True
    then have u: "Interaction_update j
                    = (Interaction_end (j\<lparr>frameCount := frameCount j + 1\<rparr>), [EndCalled])"
      using Suc.prems by (simp add: Interaction_update_def Let_def)
    have r: "map (\<lambda>k. calls (frameCount j) (duration j) (Suc k)) [1..<Suc n] = replicate n []"
      using True by (intro nth_equalityI) (simp_all add: calls_def max_def del: upt_Suc)
    have h: "calls (frameCount j) (duration j) 1 = [EndCalled]"
      using True by (simp add: calls_def max_def)
    have "snd (Interaction_updates (Suc n) j) = [EndCalled] # replicate n []"
      by (simp only: Interaction_updates.simps u prod.case snd_conv updates_inactive [OF end_inactive])
    also have "\<dots> = calls (frameCount j) (duration j) 1 #
                 map (\<lambda>k. calls (frameCount j) (duration j) (Suc k)) [1..<Suc n]"
      by (simp only: h r)
    also have "\<dots> = map (calls (frameCount j) (duration j)) [1..<Suc (Suc n)]"
      by (rule map_upt_shift [symmetric])
    finally show ?thesis .
  next
    case False
    let ?j1 = "j\<lparr>frameCount := frameCount j + 1\<rparr>"
    have u: "Interaction_update j = (?j1, [OnUpdateCalled])"
      using Suc.prems False by (simp add: Interaction_update_def Let_def)
    have a: "isActive ?j1" using Suc.prems by simp
    have h: "calls (frameCount j) (duration j) 1 = [OnUpdateCalled]"
      using False by (simp add: calls_def max_def)
    have r: "(\<lambda>k. calls (frameCount j) (duration j) (Suc k)) = calls (frameCount ?j1) (duration ?j1)"
      using False by (auto simp: calls_def fun_eq_iff max_def)
    obtain i2 css where e: "Interaction_updates n ?j1 = (i2, css)" by force
    with Suc.IH [OF a] have c: "css = map (calls (frameCount ?j1) (duration ?j1)) [1..<Suc n]"
      by (metis snd_conv)
    have "snd (Interaction_updates (Suc n) j) = [OnUpdateCalled] # css"
      by (simp only: Interaction_updates.simps u e prod.case snd_conv)
    also have "\<dots> = calls (frameCount j) (duration j) 1 #
                 map (\<lambda>k. calls (frameCount j) (duration j) (Suc k)) [1..<Suc n]"
      by (simp only: h r c)
    also have "\<dots> = map (calls (frameCount j) (duration j)) [1..<Suc (Suc n)]"
      by (rule map_upt_shift [symmetric])
    finally show ?thesis .
  qed
qed

lemma updates_frameCount:
  "isActive j \<Longrightarrow>
     frameCount (fst (Interaction_updates n j))
       = min (frameCount j + n) (max (frameCount j + 1) (duration j))"
proof (induction n arbitrary: j)
  case 0
  then show ?case by simp
next
  case (Suc n)
  show ?case
  proof (cases "frameCount j + 1 \<ge> duration j")
    case True
    then have u: "Interaction_update j
                    = (Interaction_end (j\<lparr>frameCount := frameCount j + 1\<rparr>), [EndCalled])"
      using Suc.prems by (simp add: Interaction_update_def Let_def)
    have "frameCount (fst (Interaction_updates (Suc n) j))
            = frameCount (Interaction_end (j\<lparr>frameCount := frameCount j + 1\<rparr>))"
      by (simp only: Interaction_updates.simps u prod.case fst_conv updates_inactive [OF end_inactive])
    then show ?thesis using True by (simp add: Interaction_end_def max_def min_def)
  next
    case False
    let ?j1 = "j\<lparr>frameCount := frameCount j + 1\<rparr>"
    have u: "Interaction_update j = (?j1, [OnUpdateCalled])"
      using Suc.prems False by (simp add: Interaction_update_def Let_def)
    have a: "isActive ?j1" using Suc.prems by simp
    obtain i2 css where e: "Interaction_updates n ?j1 = (i2, css)" by force
    with Suc.IH [OF a] have c: "frameCount i2 = min (frameCount ?j1 + n) (max (frameCount ?j1 + 1) (duration ?j1))"
      by (metis fst_conv)
    have "frameCount (fst (Interaction_updates (Suc n) j)) = frameCount i2"
      by (simp only: Interaction_updates.simps u e prod.case fst_conv)
    then show ?thesis using c False by (simp add: max_def min_def)
  qed
qed

text \<open>
  C4. \<open>start()\<close> sets the frame counter to 0; \<open>update()\<close> never lowers it; and in the
  frames that follow \<open>start()\<close> the \<open>k\<close>-th \<open>update()\<close> calls the per-frame hook while
  \<open>k\<close> is below the duration, calls \<open>end()\<close> when \<open>k\<close> reaches it (at the first
  \<open>update()\<close> if the duration is 0), and calls nothing afterwards: \<open>end()\<close> is called
  once, at the first \<open>update()\<close> whose frame counter has reached the duration. The
  counter stands at the number of \<open>update()\<close> calls until then and stays there.
\<close>

theorem Interaction_frameCount_end_once:
  "frameCount (Interaction_start i) = 0 \<and>
   frameCount j \<le> frameCount (fst (Interaction_update j)) \<and>
   snd (Interaction_updates n (Interaction_start i))
     = map (\<lambda>k. if k < max 1 (duration i) then [OnUpdateCalled]
                else if k = max 1 (duration i) then [EndCalled] else [])
           [1..<Suc n] \<and>
   frameCount (fst (Interaction_updates n (Interaction_start i))) = min n (max 1 (duration i))"
proof -
  have a: "isActive (Interaction_start i)" by (simp add: Interaction_start_def)
  have f: "frameCount (Interaction_start i) = 0" by (simp add: Interaction_start_def)
  have d: "duration (Interaction_start i) = duration i" by (simp add: Interaction_start_def)
  have m: "frameCount j \<le> frameCount (fst (Interaction_update j))"
    by (simp add: Interaction_update_def Interaction_end_def Let_def)
  show ?thesis
    using updates_active [OF a, of n] updates_frameCount [OF a, of n] m
    by (simp only: f d) simp
qed

text \<open>
  With a duration of 2 frames: the hook in frame 1, \<open>end()\<close> in frame 2, nothing in
  frame 3.
\<close>

theorem Interaction_frameCount_end_once_witness:
  "snd (Interaction_updates 3
          (Interaction_start
             (Interaction_new GreetingInteraction 0 1 (gvrmAt True 0 0) (gvrmAt True 5 0)
                (walkerOf (gvrmAt True 0 0)) (walkerOf (gvrmAt True 5 0))\<lparr>duration := 2\<rparr>)))
     = [[OnUpdateCalled], [EndCalled], []]"
  using Interaction_frameCount_end_once
    [of "Interaction_new GreetingInteraction 0 1 (gvrmAt True 0 0) (gvrmAt True 5 0)
           (walkerOf (gvrmAt True 0 0)) (walkerOf (gvrmAt True 5 0))\<lparr>duration := 2\<rparr>"
        "Interaction_new GreetingInteraction 0 1 (gvrmAt True 0 0) (gvrmAt True 5 0)
           (walkerOf (gvrmAt True 0 0)) (walkerOf (gvrmAt True 5 0))" 3]
  by (simp add: Interaction_new_def upt_rec)

section \<open>Meeting targets\<close>

text \<open>Both branches of \<open>moveAvatarsTogether\<close> compute the same two targets.\<close>

lemma targets_one_formula:
  "moveAvatarsTogether_targets i =
     (let pos1 = position (gvrm1 i); pos2 = position (gvrm2 i);
          direction = normalize (subVectors pos2 pos1);
          midpoint = Vec3 ((vx pos1 + vx pos2) / 2) 0 ((vz pos1 + vz pos2) / 2);
          target1 = subVectors midpoint (multiplyScalar direction (interactionDistance i / 2));
          target2 = addVectors midpoint (multiplyScalar direction (interactionDistance i / 2))
      in ((vx target1, vz target1), (vx target2, vz target2)))"
  by (simp add: moveAvatarsTogether_targets_def Let_def)

lemma sqrt_16_25: "sqrt (16 / 25) = 4 / 5"
  using real_sqrt_abs [of "4 / 5"] by (simp add: power2_eq_square)

text \<open>
  C6 at two avatars 0.8 apart, which is closer than twice the interaction distance:
  the targets are the places where the avatars already stand, so neither has
  anything to walk.
\<close>

theorem close_pair_targets:
  "Interaction_getDistance closePair = 4 / 5 \<and>
   Interaction_getDistance closePair < interactionDistance closePair * 2 \<and>
   moveAvatarsTogether_targets closePair = ((0, 0), (4 / 5, 0))"
proof -
  have d: "vlength (subVectors (position (gvrmAt True 0 0)) (position (gvrmAt True (4 / 5) 0))) = 4 / 5"
    by (simp add: vlength_def subVectors_def position_def gvrmAt_def sqrt_16_25)
  have d': "vlength (subVectors (position (gvrmAt True (4 / 5) 0)) (position (gvrmAt True 0 0))) = 4 / 5"
    by (simp add: vlength_def subVectors_def position_def gvrmAt_def sqrt_16_25)
  have n: "normalize (subVectors (position (gvrmAt True (4 / 5) 0)) (position (gvrmAt True 0 0))) = Vec3 1 0 0"
    by (simp add: normalize_def d') (simp add: subVectors_def position_def gvrmAt_def multiplyScalar_def)
  have g: "Interaction_getDistance closePair = 4 / 5"
    by (simp add: Interaction_getDistance_def distanceTo_def closePair_def Interaction_new_def d)
  have t: "moveAvatarsTogether_targets closePair = ((0, 0), (4 / 5, 0))"
    by (simp add: targets_one_formula closePair_def Interaction_new_def Let_def n)
       (simp add: subVectors_def addVectors_def multiplyScalar_def position_def gvrmAt_def)
  show ?thesis using g t by (simp add: closePair_def Interaction_new_def)
qed

text \<open>The first avatar's target is its own place.\<close>

theorem close_pair_targets_witness:
  "fst (moveAvatarsTogether_targets closePair)
     = (posX (gvrm1 closePair), posZ (gvrm1 closePair))"
  using close_pair_targets by (simp add: closePair_def Interaction_new_def gvrmAt_def)

section \<open>Walker: the angle loops\<close>

declare subLoop.simps [simp del] addLoop.simps [simp del]

lemma subLoop_le: "subLoop a \<le> pi"
  by (induction a rule: subLoop.induct) (subst subLoop.simps, simp)

lemma subLoop_id: "a \<le> pi \<Longrightarrow> subLoop a = a"
  by (subst subLoop.simps) simp


lemma addLoop_ge: "- pi \<le> addLoop a"
  by (induction a rule: addLoop.induct) (subst addLoop.simps, simp)

lemma addLoop_id: "- pi \<le> a \<Longrightarrow> addLoop a = a"
  by (subst addLoop.simps) simp

lemma addLoop_le: "a \<le> pi \<Longrightarrow> addLoop a \<le> pi"
proof (induction a rule: addLoop.induct)
  case (1 a)
  show ?case
  proof (cases "a < - pi")
    case True
    then have "a + pi * 2 \<le> pi" by simp
    with 1 True show ?thesis by (subst addLoop.simps) simp
  next
    case False
    with 1 show ?thesis by (subst addLoop.simps) simp
  qed
qed


lemma normalizeAngle_range: "- pi \<le> normalizeAngle a \<and> normalizeAngle a \<le> pi"
  unfolding normalizeAngle_def using addLoop_ge addLoop_le subLoop_le by blast


lemma normalizeAngle_id: "- pi \<le> a \<Longrightarrow> a \<le> pi \<Longrightarrow> normalizeAngle a = a"
  by (simp add: normalizeAngle_def subLoop_id addLoop_id)



section \<open>Walker: what the parts of \<open>update()\<close> change\<close>



lemma turnAndWalk_rotation:
  "currentRotation (turnAndWalk g d w) = turnedRotation w \<and>
   targetRotation (turnAndWalk g d w) = targetRotation w"
  by (simp add: turnAndWalk_def setNewTarget_def Let_def)

lemma Walker_update_skip: "skipsUpdate w \<Longrightarrow> Walker_update d w = w"
  by (auto simp: skipsUpdate_def Walker_update_def split: option.splits if_splits)

lemma Walker_update_run:
  "\<not> skipsUpdate w \<Longrightarrow> gvrm w = Some g \<Longrightarrow>
     Walker_update d w = turnAndWalk g d (navigate g d (toggleWalk (d_duration d) w))"
  by (auto simp: skipsUpdate_def Walker_update_def split: option.splits if_splits)


lemma navigate_flags:
  "shouldWalk (navigate g d w) = shouldWalk w \<and> isWalking (navigate g d w) = isWalking w \<and>
   boundary (navigate g d w) = boundary w \<and> gvrm (navigate g d w) = gvrm w \<and>
   justChangedTarget (navigate g d w) = justChangedTarget w"
  by (simp add: navigate_def setNewTarget_def Let_def)

lemma toggleWalk_fields:
  "boundary (toggleWalk r w) = boundary w \<and> gvrm (toggleWalk r w) = gvrm w \<and>
   justChangedTarget (toggleWalk r w) = justChangedTarget w"
  by (simp add: toggleWalk_def switchToIdle_def switchToWalking_def Let_def)

section \<open>Walker: turning\<close>





section \<open>Walker: the rotation stays between \<open>-\<pi>\<close> and \<open>\<pi>\<close>\<close>

lemma update_rotation_range:
  assumes "- pi \<le> currentRotation w \<and> currentRotation w \<le> pi"
  shows "- pi \<le> currentRotation (Walker_update d w) \<and> currentRotation (Walker_update d w) \<le> pi"
proof (cases "skipsUpdate w")
  case True
  with assms show ?thesis by (simp add: Walker_update_skip)
next
  case False
  then obtain g where g: "gvrm w = Some g"
    by (auto simp: skipsUpdate_def split: option.splits)
  show ?thesis
    using normalizeAngle_range
    by (simp add: Walker_update_run [OF False g] turnAndWalk_rotation turnedRotation_def)
qed

lemma new_rotation_range:
  assumes "0 \<le> r" "r < 1"
  shows "- pi \<le> currentRotation (Walker_new g a b c x z r) \<and> currentRotation (Walker_new g a b c x z r) \<le> pi"
proof -
  have "- (1 / 2) \<le> r - 1 / 2" "r - 1 / 2 \<le> 1 / 2" using assms by simp_all
  then have "- (1 / 2) * (pi * 2) \<le> (r - 1 / 2) * (pi * 2)" "(r - 1 / 2) * (pi * 2) \<le> (1 / 2) * (pi * 2)"
    using pi_gt_zero by (simp_all only: mult_le_cancel_right) simp_all
  then show ?thesis by (simp add: Walker_new_def setNewTarget_def Let_def algebra_simps)
qed

lemma updates_rotation_range:
  "- pi \<le> currentRotation w \<and> currentRotation w \<le> pi \<Longrightarrow>
   - pi \<le> currentRotation (Walker_updates ds w) \<and> currentRotation (Walker_updates ds w) \<le> pi"
  by (induction ds arbitrary: w) (simp_all add: update_rotation_range)

text \<open>
  C10. The constructor draws \<open>currentRotation\<close> between \<open>-\<pi>\<close> and \<open>\<pi>\<close>, and it is
  there after any number of \<open>update()\<close> calls. For a walker in any state, whatever
  its flags: an \<open>update()\<close> that returns at a guard leaves \<open>currentRotation\<close> as it
  was, one that runs leaves it in the range, so the range is kept.
\<close>

theorem currentRotation_in_range:
  assumes "0 \<le> rRot" "rRot < 1"
  shows "- pi \<le> currentRotation (Walker_updates ds (Walker_new g rWalk rStop rShould rX rZ rRot)) \<and>
         currentRotation (Walker_updates ds (Walker_new g rWalk rStop rShould rX rZ rRot)) \<le> pi \<and>
         (skipsUpdate w \<longrightarrow> currentRotation (Walker_update d w) = currentRotation w) \<and>
         (\<not> skipsUpdate w \<longrightarrow>
            - pi \<le> currentRotation (Walker_update d w) \<and> currentRotation (Walker_update d w) \<le> pi) \<and>
         (- pi \<le> currentRotation w \<and> currentRotation w \<le> pi \<longrightarrow>
            - pi \<le> currentRotation (Walker_update d w) \<and> currentRotation (Walker_update d w) \<le> pi)"
proof -
  have 1: "- pi \<le> currentRotation (Walker_updates ds (Walker_new g rWalk rStop rShould rX rZ rRot)) \<and>
           currentRotation (Walker_updates ds (Walker_new g rWalk rStop rShould rX rZ rRot)) \<le> pi"
    using new_rotation_range [OF assms] by (rule updates_rotation_range)
  have 2: "skipsUpdate w \<longrightarrow> currentRotation (Walker_update d w) = currentRotation w"
    by (simp add: Walker_update_skip)
  have 3: "\<not> skipsUpdate w \<longrightarrow>
            - pi \<le> currentRotation (Walker_update d w) \<and> currentRotation (Walker_update d w) \<le> pi"
  proof
    assume r: "\<not> skipsUpdate w"
    then obtain g' where g': "gvrm w = Some g'"
      by (auto simp: skipsUpdate_def split: option.splits)
    show "- pi \<le> currentRotation (Walker_update d w) \<and> currentRotation (Walker_update d w) \<le> pi"
      using normalizeAngle_range
      by (simp add: Walker_update_run [OF r g'] turnAndWalk_rotation turnedRotation_def)
  qed
  have 4: "- pi \<le> currentRotation w \<and> currentRotation w \<le> pi \<longrightarrow>
            - pi \<le> currentRotation (Walker_update d w) \<and> currentRotation (Walker_update d w) \<le> pi"
    using update_rotation_range by blast
  from 1 2 3 4 show ?thesis by blast
qed

text \<open>A walker from the constructor, after its clips have loaded and two frames have run.\<close>

theorem currentRotation_in_range_witness:
  "- pi \<le> currentRotation (Walker_updates [sampleDraws, sampleDraws] (walkerOf (gvrmAt True 0 0))) \<and>
   currentRotation (Walker_updates [sampleDraws, sampleDraws] (walkerOf (gvrmAt True 0 0))) \<le> pi"
proof -
  have i: "currentRotation (initAnimations w) = currentRotation w" for w
    by (simp add: initAnimations_def split: option.splits)
  have "- pi \<le> currentRotation (walkerOf (gvrmAt True 0 0)) \<and>
        currentRotation (walkerOf (gvrmAt True 0 0)) \<le> pi"
    using currentRotation_in_range [of "1 / 2" "[]" "Some (gvrmAt True 0 0)" 0 0 0 "1 / 2" "1 / 2"]
    by (simp add: walkerOf_def i)
  then show ?thesis
    using currentRotation_in_range [of "1 / 2" "[]" None 0 0 0 0 0 "walkerOf (gvrmAt True 0 0)" sampleDraws]
          currentRotation_in_range [of "1 / 2" "[]" None 0 0 0 0 0
             "Walker_update sampleDraws (walkerOf (gvrmAt True 0 0))" sampleDraws]
    by simp
qed

section \<open>Walker: the boundary\<close>

lemma clamp_between: "lo \<le> hi \<Longrightarrow> lo \<le> clamp lo hi v \<and> clamp lo hi v \<le> hi"
  by (simp add: clamp_def max_def min_def)

lemma clampToMargin_inRegion:
  assumes "1 / 2 \<le> boundary w"
  shows "inRegion w (clampToMargin w p)"
proof -
  have o: "- boundary w + 1 / 2 \<le> boundary w - 1 / 2" using assms by simp
  have "\<bar>clamp (- boundary w + 1 / 2) (boundary w - 1 / 2) v\<bar> \<le> boundary w - 1 / 2" for v
    using clamp_between [OF o, of v] by (intro iffD2 [OF abs_le_iff] conjI) linarith+
  then show ?thesis by (simp add: inRegion_def clampToMargin_def)
qed

lemma insideMargin_inRegion: "insideMargin w p \<Longrightarrow> inRegion w p"
  by (simp add: insideMargin_def inRegion_def)

lemma turnAndWalk_position:
  "positionXZ (turnAndWalk g d w) =
     Some (if movesForward w
           then (if insideMargin w (forwardPosition g w) then forwardPosition g w
                 else clampToMargin w (forwardPosition g w))
           else (posX g, posZ g))"
  by (simp add: turnAndWalk_def positionXZ_def setNewTarget_def Let_def)

lemma turnAndWalk_target:
  "movesForward w \<Longrightarrow> \<not> insideMargin w (forwardPosition g w) \<Longrightarrow>
     (targetX (turnAndWalk g d w), targetZ (turnAndWalk g d w)) =
       (if justChangedTarget w then (targetX w, targetZ w)
        else ((d_boundaryX d - 1 / 2) * 2 * (boundary w * (85 / 100)),
              (d_boundaryZ d - 1 / 2) * 2 * (boundary w * (85 / 100)))) \<and>
     justChangedTarget (turnAndWalk g d w)"
  by (simp add: turnAndWalk_def setNewTarget_def Let_def)

lemma inRegion_boundary: "boundary w' = boundary w \<Longrightarrow> inRegion w' p = inRegion w p"
  by (simp add: inRegion_def)

lemma update_position:
  assumes b: "1 / 2 \<le> boundary w" and g: "gvrm w = Some g"
  shows "\<exists>p'. positionXZ (Walker_update d w) = Some p' \<and>
           (p' = (posX g, posZ g) \<or> inRegion w p')"
proof (cases "skipsUpdate w")
  case True
  then show ?thesis using g by (simp add: Walker_update_skip positionXZ_def)
next
  case False
  let ?w1 = "navigate g d (toggleWalk (d_duration d) w)"
  have bw: "boundary ?w1 = boundary w" by (simp add: navigate_flags toggleWalk_fields)
  have r: "inRegion ?w1 = inRegion w" using inRegion_boundary [OF bw] by (simp add: fun_eq_iff)
  have b1: "1 / 2 \<le> boundary ?w1" using b bw by simp
  show ?thesis
    using clampToMargin_inRegion [OF b1] insideMargin_inRegion [of ?w1 "forwardPosition g ?w1"]
    by (simp add: Walker_update_run [OF False g] turnAndWalk_position r)
qed

lemma stray_facts:
  "gvrm strayWalker = Some (gvrmAt True 11 0)" "\<not> skipsUpdate strayWalker"
  "\<not> shouldWalk (toggleWalk 0 strayWalker)" "boundary strayWalker = 45 / 4"
  by (simp_all add: strayWalker_def skipsUpdate_def toggleWalk_def
        walkerOf_def initAnimations_def Walker_new_def gvrmAt_def setNewTarget_def Let_def)

lemma stray_stays:
  "positionXZ (Walker_update sampleDraws strayWalker) = Some (11, 0) \<and> \<not> inRegion strayWalker (11, 0)"
  using stray_facts(3)
  by (simp add: Walker_update_run [OF stray_facts(2) stray_facts(1)] turnAndWalk_position
        movesForward_def navigate_flags sampleDraws_def inRegion_def stray_facts(4) gvrmAt_def)


lemma wall_facts:
  "gvrm wallWalker = Some (gvrmAt True (43 / 4) 0)" "\<not> skipsUpdate wallWalker"
  by (simp_all add: wallWalker_def skipsUpdate_def
        walkerOf_def initAnimations_def Walker_new_def gvrmAt_def setNewTarget_def Let_def)

lemma sqrt_25: "sqrt 25 = 5"
  using real_sqrt_abs [of 5] by simp

lemma wall_navigate:
  "navigate (gvrmAt True (43 / 4) 0) sampleDraws (toggleWalk (d_duration sampleDraws) wallWalker) = headingWalker"
  by (simp add: navigate_def toggleWalk_def headingWalker_def wallWalker_def walkerOf_def
        initAnimations_def Walker_new_def sampleDraws_def
        gvrmAt_def setNewTarget_def Let_def atan2_def sqrt_25)

lemma normalizeAngle_0: "normalizeAngle 0 = 0"
  using pi_gt_zero by (simp add: normalizeAngle_id)

lemma wall_turn:
  "movesForward headingWalker"
  "forwardPosition (gvrmAt True (43 / 4) 0) headingWalker = (43 / 4, 3 / 100)"
  "boundary headingWalker = 45 / 4"
  "justChangedTarget headingWalker"
  "targetX headingWalker = 43 / 4"
  "targetZ headingWalker = 5"
  by (simp_all add: movesForward_def forwardPosition_def rotDiffOf_def turnedRotation_def
        headingWalker_def wallWalker_def walkerOf_def initAnimations_def Walker_new_def
        gvrmAt_def setNewTarget_def Let_def normalizeAngle_0)

lemma wall_keeps_target:
  "positionXZ (Walker_update sampleDraws wallWalker) = Some (43 / 4, 3 / 100) \<and>
   targetX (Walker_update sampleDraws wallWalker) = targetX wallWalker \<and>
   targetZ (Walker_update sampleDraws wallWalker) = targetZ wallWalker"
proof -
  let ?g = "gvrmAt True (43 / 4) 0"
  have u: "Walker_update sampleDraws wallWalker = turnAndWalk ?g sampleDraws headingWalker"
    by (simp only: Walker_update_run [OF wall_facts(2) wall_facts(1)] wall_navigate)
  have n: "\<not> insideMargin headingWalker (forwardPosition ?g headingWalker)"
    by (simp add: wall_turn insideMargin_def)
  have c: "clampToMargin headingWalker (43 / 4, 3 / 100) = (43 / 4, 3 / 100)"
    by (simp add: wall_turn clampToMargin_def clamp_def)
  have t: "targetX wallWalker = 43 / 4" "targetZ wallWalker = 5" by (simp_all add: wallWalker_def)
  show ?thesis
    using turnAndWalk_target [OF wall_turn(1) n, of sampleDraws] wall_turn(1) n
    by (simp add: u turnAndWalk_position c wall_turn t)
qed

text \<open>
  C8 as the code has it, for a walker with the constructor's boundary 11.25 and the
  safety margin 0.5. An avatar that is within \<open>|x| \<le> 10.75\<close>, \<open>|z| \<le> 10.75\<close> before
  \<open>update()\<close> is within it afterwards, and an \<open>update()\<close> that moves the avatar
  leaves it there. An \<open>update()\<close> that runs ends with the rotation and movement
  part, \<open>turnAndWalk\<close>, after the toggle and the heading; in that part a forward step
  whose new position is not strictly inside the region puts the avatar at that
  position clamped to the region, and sets \<open>justChangedTarget\<close>; it draws a new
  random target when \<open>justChangedTarget\<close> was not set, and keeps the target when it
  was.
\<close>

theorem Walker_update_region:
  assumes b: "boundary w = 45 / 4" and g: "gvrm w = Some g"
  shows "(\<exists>p'. positionXZ (Walker_update d w) = Some p' \<and>
            (inRegion w (posX g, posZ g) \<longrightarrow> inRegion w p') \<and>
            (p' \<noteq> (posX g, posZ g) \<longrightarrow> inRegion w p')) \<and>
         (\<not> skipsUpdate w \<longrightarrow>
            Walker_update d w = turnAndWalk g d (navigate g d (toggleWalk (d_duration d) w))) \<and>
         (movesForward w \<and> \<not> insideMargin w (forwardPosition g w) \<longrightarrow>
            positionXZ (turnAndWalk g d w) = Some (clampToMargin w (forwardPosition g w)) \<and>
            (targetX (turnAndWalk g d w), targetZ (turnAndWalk g d w)) =
              (if justChangedTarget w then (targetX w, targetZ w)
               else ((d_boundaryX d - 1 / 2) * 2 * (boundary w * (85 / 100)),
                     (d_boundaryZ d - 1 / 2) * 2 * (boundary w * (85 / 100)))) \<and>
            justChangedTarget (turnAndWalk g d w))"
proof -
  have "1 / 2 \<le> boundary w" using b by simp
  from update_position [OF this g, of d]
  have 1: "\<exists>p'. positionXZ (Walker_update d w) = Some p' \<and>
            (inRegion w (posX g, posZ g) \<longrightarrow> inRegion w p') \<and>
            (p' \<noteq> (posX g, posZ g) \<longrightarrow> inRegion w p')"
    by auto
  have 2: "\<not> skipsUpdate w \<longrightarrow>
            Walker_update d w = turnAndWalk g d (navigate g d (toggleWalk (d_duration d) w))"
    using g by (simp add: Walker_update_run)
  have 3: "movesForward w \<and> \<not> insideMargin w (forwardPosition g w) \<longrightarrow>
            positionXZ (turnAndWalk g d w) = Some (clampToMargin w (forwardPosition g w)) \<and>
            (targetX (turnAndWalk g d w), targetZ (turnAndWalk g d w)) =
              (if justChangedTarget w then (targetX w, targetZ w)
               else ((d_boundaryX d - 1 / 2) * 2 * (boundary w * (85 / 100)),
                     (d_boundaryZ d - 1 / 2) * 2 * (boundary w * (85 / 100)))) \<and>
            justChangedTarget (turnAndWalk g d w)"
    using turnAndWalk_target [of w g d] by (simp add: turnAndWalk_position)
  from 1 2 3 show ?thesis by blast
qed

text \<open>The walker on the margin: its forward step is clamped and the debounce flag is set.\<close>

theorem Walker_update_region_witness:
  "positionXZ (turnAndWalk (gvrmAt True (43 / 4) 0) sampleDraws headingWalker)
     = Some (clampToMargin headingWalker (43 / 4, 3 / 100)) \<and>
   justChangedTarget (turnAndWalk (gvrmAt True (43 / 4) 0) sampleDraws headingWalker)"
proof -
  have g: "gvrm headingWalker = Some (gvrmAt True (43 / 4) 0)"
    by (simp add: headingWalker_def wall_facts)
  have n: "\<not> insideMargin headingWalker (43 / 4, 3 / 100)"
    by (simp add: wall_turn insideMargin_def)
  show ?thesis
    using Walker_update_region [OF wall_turn(3) g, of sampleDraws] wall_turn(1) n
    by (simp add: wall_turn(2))
qed

text \<open>
  Two walkers at which C8 fails as it is stated. The standing walker whose avatar
  was placed at \<open>x = 11\<close> is still there after \<open>update()\<close>, outside the region. The
  walker on the margin, inside the debounce window, is clamped to the margin by
  \<open>update()\<close> and keeps its target.
\<close>

theorem Walker_update_region_counterexample:
  "positionXZ (Walker_update sampleDraws strayWalker) = Some (11, 0) \<and>
   \<not> inRegion strayWalker (11, 0) \<and>
   \<not> insideMargin headingWalker (forwardPosition (gvrmAt True (43 / 4) 0) headingWalker) \<and>
   positionXZ (Walker_update sampleDraws wallWalker) = Some (43 / 4, 3 / 100) \<and>
   targetX (Walker_update sampleDraws wallWalker) = targetX wallWalker \<and>
   targetZ (Walker_update sampleDraws wallWalker) = targetZ wallWalker"
  using stray_stays wall_keeps_target by (simp add: wall_turn insideMargin_def)

section \<open>Walker: a walker paused for an interaction\<close>


lemma toggleWalk_inInteraction:
  "toggleWalk r (w\<lparr>inInteraction := b\<rparr>) = (toggleWalk r w)\<lparr>inInteraction := b\<rparr>"
  by (simp add: toggleWalk_def switchToIdle_def switchToWalking_def Let_def)

lemma navigate_inInteraction:
  "navigate g d (w\<lparr>inInteraction := b\<rparr>) = (navigate g d w)\<lparr>inInteraction := b\<rparr>"
  by (simp add: navigate_def setNewTarget_def Let_def)

lemma turnAndWalk_inInteraction:
  "turnAndWalk g d (w\<lparr>inInteraction := b\<rparr>) = (turnAndWalk g d w)\<lparr>inInteraction := b\<rparr>"
  by (simp add: turnAndWalk_def movesForward_def rotDiffOf_def turnedRotation_def
        forwardPosition_def insideMargin_def clampToMargin_def setNewTarget_def Let_def)

lemma update_ignores_inInteraction:
  "Walker_update d (w\<lparr>inInteraction := b\<rparr>) = (Walker_update d w)\<lparr>inInteraction := b\<rparr>"
  by (simp add: Walker_update_def toggleWalk_inInteraction navigate_inInteraction
        turnAndWalk_inInteraction split: option.splits)



section \<open>Walker: the temporary target\<close>



lemma withinThreshold_runs: "withinThreshold t w \<Longrightarrow> \<not> skipsUpdate w \<and> gvrm w \<noteq> None"
  by (auto simp: withinThreshold_def split: option.splits if_splits)







end
